theory Spec2Isabelle
  imports Complex_Main
begin

section \<open>Python values\<close>

text \<open>
  The values the program handles are the ones \<^verbatim>\<open>json.load\<close> and \<^verbatim>\<open>response.json()\<close>
  produce: \<^verbatim>\<open>None\<close>, booleans, unbounded integers, floats, strings, lists and
  dictionaries with string keys. A float is an IEEE 754 binary64 value, kept as the
  rational number it denotes, or an infinity, or NaN; the sign of zero is not kept
  (Python compares \<^verbatim>\<open>-0.0 == 0.0\<close> as equal). A dictionary is kept as the list of its
  items; a key is looked up with \<open>map_of\<close>. Strings are sequences of code points
  below 256.
\<close>

datatype pyfloat = Finite rat | PosInf | NegInf | NaN

datatype json =
    JNull
  | JBool bool
  | JInt int
  | JFloat pyfloat
  | JStr string
  | JList "json list"
  | JObj "(string \<times> json) list"

text \<open>Exceptions are values: the class that was raised and its message (\<^verbatim>\<open>str(e)\<close>).\<close>

datatype exn_class =
    FileNotFoundError
  | JSONDecodeError
  | KeyError
  | TypeError
  | AttributeError
  | ValueError
  | OverflowError
  | Exception
  | RequestException

datatype error = Error exn_class string

fun error_class :: "error \<Rightarrow> exn_class" where
  "error_class (Error c m) = c"

fun error_str :: "error \<Rightarrow> string" where
  "error_str (Error c m) = m"

fun type_name :: "json \<Rightarrow> string" where
  "type_name JNull = ''NoneType''"
| "type_name (JBool b) = ''bool''"
| "type_name (JInt i) = ''int''"
| "type_name (JFloat x) = ''float''"
| "type_name (JStr s) = ''str''"
| "type_name (JList xs) = ''list''"
| "type_name (JObj kvs) = ''dict''"

definition quoted :: "string \<Rightarrow> string" where
  "quoted s = [CHR 0x27] @ s @ [CHR 0x27]"

text \<open>\<^verbatim>\<open>d.get(key, default)\<close>: only a dictionary has the method.\<close>

definition dict_get :: "json \<Rightarrow> string \<Rightarrow> json \<Rightarrow> error + json" where
  "dict_get d key dflt =
     (case d of
        JObj kvs \<Rightarrow> Inr (case map_of kvs key of None \<Rightarrow> dflt | Some v \<Rightarrow> v)
      | _ \<Rightarrow> Inl (Error AttributeError
                 (quoted (type_name d) @ '' object has no attribute '' @ quoted ''get'')))"

text \<open>\<^verbatim>\<open>d[key]\<close> with a string key.\<close>

definition getitem :: "json \<Rightarrow> string \<Rightarrow> error + json" where
  "getitem d key =
     (case d of
        JObj kvs \<Rightarrow>
          (case map_of kvs key of
             None \<Rightarrow> Inl (Error KeyError (quoted key))
           | Some v \<Rightarrow> Inr v)
      | JList xs \<Rightarrow> Inl (Error TypeError ''list indices must be integers or slices, not str'')
      | JStr s \<Rightarrow> Inl (Error TypeError ''string indices must be integers'')
      | _ \<Rightarrow> Inl (Error TypeError (quoted (type_name d) @ '' object is not subscriptable'')))"

text \<open>The truth value of an object, as \<^verbatim>\<open>if not x\<close> tests it.\<close>

fun truthy :: "json \<Rightarrow> bool" where
  "truthy JNull = False"
| "truthy (JBool b) = b"
| "truthy (JInt i) = (i \<noteq> 0)"
| "truthy (JFloat x) = (x \<noteq> Finite 0)"
| "truthy (JStr s) = (s \<noteq> [])"
| "truthy (JList xs) = (xs \<noteq> [])"
| "truthy (JObj kvs) = (kvs \<noteq> [])"

text \<open>What a \<^verbatim>\<open>for\<close> loop over the object visits.\<close>

definition py_iter :: "json \<Rightarrow> error + json list" where
  "py_iter v =
     (case v of
        JList xs \<Rightarrow> Inr xs
      | JObj kvs \<Rightarrow> Inr (map (\<lambda>kv. JStr (fst kv)) kvs)
      | JStr s \<Rightarrow> Inr (map (\<lambda>c. JStr [c]) s)
      | _ \<Rightarrow> Inl (Error TypeError (quoted (type_name v) @ '' object is not iterable'')))"

section \<open>Float arithmetic\<close>

text \<open>
  Every float operation computes the exact result and rounds it once to the nearest
  binary64 value, ties to the even significand (53 bits of precision, exponents from
  -1022 to 1023, subnormals below). The rounding is done on integers.
\<close>

text \<open>The number of binary digits of a positive integer.\<close>

function bit_length :: "int \<Rightarrow> int" where
  "bit_length n = (if n \<le> 0 then 0 else 1 + bit_length (n div 2))"
  by pat_completeness auto
termination
  by (relation "measure nat") auto

declare bit_length.simps [simp del]

definition pow2 :: "int \<Rightarrow> rat" where
  "pow2 k = (if 0 \<le> k then 2 ^ nat k else 1 / 2 ^ nat (- k))"

text \<open>The integer nearest to \<open>a / b\<close> for \<open>0 < b\<close>, a tie going to the even one.\<close>

definition round_half_even_div :: "int \<Rightarrow> int \<Rightarrow> int" where
  "round_half_even_div a b =
     (let d = a div b; m = a mod b
      in if 2 * m < b then d
         else if b < 2 * m then d + 1
         else if even d then d else d + 1)"

text \<open>\<open>\<lfloor>log\<^sub>2 (p / q)\<rfloor>\<close> for positive \<open>p\<close> and \<open>q\<close>.\<close>

definition floor_log2 :: "int \<Rightarrow> int \<Rightarrow> int" where
  "floor_log2 p q =
     (let d = bit_length p - bit_length q
      in if (if 0 \<le> d then q * 2 ^ nat d \<le> p else q \<le> p * 2 ^ nat (- d))
         then d else d - 1)"

text \<open>
  The nearest binary64 value to \<open>p / q\<close> for positive \<open>p\<close> and \<open>q\<close>, as its
  significand and exponent: the value is \<open>n * 2 ^ s\<close>.
\<close>

definition binary64_parts :: "int \<Rightarrow> int \<Rightarrow> int \<times> int" where
  "binary64_parts p q =
     (let s = max (floor_log2 p q) (- 1022) - 52
      in (if 0 \<le> s then round_half_even_div p (q * 2 ^ nat s)
          else round_half_even_div (p * 2 ^ nat (- s)) q, s))"

text \<open>Rounding a rational to a float; from \<open>2 ^ 1024\<close> on the result is an infinity.\<close>

definition round_to_double :: "rat \<Rightarrow> pyfloat" where
  "round_to_double x =
     (if x = 0 then Finite 0
      else
        let (p, q) = quotient_of \<bar>x\<bar>;
            (n, s) = binary64_parts p q
        in if 0 \<le> s \<and> 2 ^ 1024 \<le> n * 2 ^ nat s then (if 0 < x then PosInf else NegInf)
           else Finite ((if 0 < x then 1 else - 1) * of_int n * pow2 s))"

text \<open>\<^verbatim>\<open>x * c\<close> and \<^verbatim>\<open>x / c\<close> for a float \<open>x\<close> and a positive finite float \<open>c\<close>.\<close>

definition float_times :: "pyfloat \<Rightarrow> rat \<Rightarrow> pyfloat" where
  "float_times x c = (case x of Finite r \<Rightarrow> round_to_double (r * c) | _ \<Rightarrow> x)"

definition float_over :: "pyfloat \<Rightarrow> rat \<Rightarrow> pyfloat" where
  "float_over x c = (case x of Finite r \<Rightarrow> round_to_double (r / c) | _ \<Rightarrow> x)"

text \<open>
  \<^verbatim>\<open>v / k\<close> for an integer constant \<open>k > 0\<close>. An integer (a boolean is one) is divided
  exactly and the quotient rounded once; too large a quotient raises. A float is
  divided by the float \<open>k\<close>.
\<close>

definition int_true_divide :: "int \<Rightarrow> int \<Rightarrow> error + json" where
  "int_true_divide a k =
     (case round_to_double (of_int a / of_int k) of
        Finite r \<Rightarrow> Inr (JFloat (Finite r))
      | _ \<Rightarrow> Inl (Error OverflowError ''integer division result too large for a float''))"

definition py_truediv :: "json \<Rightarrow> int \<Rightarrow> error + json" where
  "py_truediv v k =
     (case v of
        JInt a \<Rightarrow> int_true_divide a k
      | JBool b \<Rightarrow> int_true_divide (if b then 1 else 0) k
      | JFloat x \<Rightarrow> Inr (JFloat (float_over x (of_int k)))
      | _ \<Rightarrow> Inl (Error TypeError
                 (''unsupported operand type(s) for /: '' @ quoted (type_name v)
                  @ '' and '' @ quoted ''int'')))"

text \<open>
  \<^verbatim>\<open>v * c\<close> for a positive float constant \<open>c\<close>. An integer is converted to a float
  first, which raises when it is too large.
\<close>

definition int_to_float :: "int \<Rightarrow> error + pyfloat" where
  "int_to_float a =
     (case round_to_double (of_int a) of
        Finite r \<Rightarrow> Inr (Finite r)
      | _ \<Rightarrow> Inl (Error OverflowError ''int too large to convert to float''))"

definition py_mul_float :: "json \<Rightarrow> rat \<Rightarrow> error + json" where
  "py_mul_float v c =
     (case v of
        JInt a \<Rightarrow>
          (case int_to_float a of Inl e \<Rightarrow> Inl e | Inr x \<Rightarrow> Inr (JFloat (float_times x c)))
      | JBool b \<Rightarrow>
          (case int_to_float (if b then 1 else 0) of
             Inl e \<Rightarrow> Inl e | Inr x \<Rightarrow> Inr (JFloat (float_times x c)))
      | JFloat x \<Rightarrow> Inr (JFloat (float_times x c))
      | JStr s \<Rightarrow> Inl (Error TypeError
          (''can'' @ [CHR 0x27] @ ''t multiply sequence by non-int of type '' @ quoted ''float''))
      | JList xs \<Rightarrow> Inl (Error TypeError
          (''can'' @ [CHR 0x27] @ ''t multiply sequence by non-int of type '' @ quoted ''float''))
      | _ \<Rightarrow> Inl (Error TypeError
                 (''unsupported operand type(s) for *: '' @ quoted (type_name v)
                  @ '' and '' @ quoted ''float'')))"

text \<open>The float that the literal \<^verbatim>\<open>3.6\<close> denotes.\<close>

definition float_3_6 :: rat where
  "float_3_6 = (let (n, s) = binary64_parts 18 5 in of_int n * pow2 s)"

text \<open>
  \<^verbatim>\<open>round(v, 2)\<close>. An integer is returned as it is (a boolean as the integer). A finite
  float is rounded to two decimals on its exact value, ties to even, and the decimal is
  converted back to the nearest float; an infinity or NaN is returned as it is.
\<close>

definition float_round_2 :: "pyfloat \<Rightarrow> error + pyfloat" where
  "float_round_2 x =
     (case x of
        Finite r \<Rightarrow>
          (let (p, q) = quotient_of r
           in case round_to_double (of_int (round_half_even_div (p * 100) q) / 100) of
                Finite y \<Rightarrow> Inr (Finite y)
              | _ \<Rightarrow> Inl (Error OverflowError ''rounded value too large to represent''))
      | _ \<Rightarrow> Inr x)"

definition round_2 :: "json \<Rightarrow> error + json" where
  "round_2 v =
     (case v of
        JInt a \<Rightarrow> Inr (JInt a)
      | JBool b \<Rightarrow> Inr (JInt (if b then 1 else 0))
      | JFloat x \<Rightarrow> (case float_round_2 x of Inl e \<Rightarrow> Inl e | Inr y \<Rightarrow> Inr (JFloat y))
      | _ \<Rightarrow> Inl (Error TypeError
                 (''type '' @ type_name v @ '' doesn'' @ [CHR 0x27] @ ''t define __round__ method'')))"

section \<open>Strings\<close>

text \<open>\<^verbatim>\<open>s.replace('Z', '+00:00')\<close>: every occurrence is replaced; only a string has the method.\<close>

definition replace_Z :: "string \<Rightarrow> string" where
  "replace_Z s = concat (map (\<lambda>c. if c = CHR ''Z'' then ''+00:00'' else [c]) s)"

definition str_replace_Z :: "json \<Rightarrow> error + string" where
  "str_replace_Z v =
     (case v of
        JStr s \<Rightarrow> Inr (replace_Z s)
      | _ \<Rightarrow> Inl (Error AttributeError
                 (quoted (type_name v) @ '' object has no attribute '' @ quoted ''replace'')))"

section \<open>Library functions\<close>

text \<open>
  The functions of the Python libraries that the program calls and that are not part
  of it are parameters of the model: the JSON codec, \<^verbatim>\<open>datetime.fromisoformat\<close> (with
  the datetime values \<open>'d\<close> it returns), and the text \<^verbatim>\<open>str()\<close> gives for a float, a
  list or a dictionary inside an f-string.
\<close>

record 'd pylib =
  json_loads :: "string \<Rightarrow> error + json"
  json_dumps :: "json \<Rightarrow> string"
  fromisoformat :: "string \<Rightarrow> error + 'd"
  str_of :: "json \<Rightarrow> string"

section \<open>Normalising activities\<close>

text \<open>A cell of the table: a Python value or a datetime.\<close>

datatype 'd cell = Val json | Date 'd

type_synonym 'd row = "(string \<times> 'd cell) list"

text \<open>Sequencing: the first exception ends the computation.\<close>

definition bind_err :: "error + 'a \<Rightarrow> ('a \<Rightarrow> error + 'b) \<Rightarrow> error + 'b" where
  "bind_err m f = (case m of Inl e \<Rightarrow> Inl e | Inr x \<Rightarrow> f x)"

text \<open>
  The dictionary built for one activity. Python evaluates the entries of the dictionary
  display in order, so the first failing one decides the exception.
\<close>

definition process_activity :: "'d pylib \<Rightarrow> json \<Rightarrow> error + 'd row" where
  "process_activity L activity =
     bind_err (dict_get activity ''name'' (JStr ''Unnamed Activity'')) (\<lambda>name.
     bind_err (dict_get activity ''type'' (JStr ''Unknown'')) (\<lambda>type.
     bind_err (dict_get activity ''start_date'' (JStr [])) (\<lambda>sd.
     bind_err (str_replace_Z sd) (\<lambda>iso.
     bind_err (fromisoformat L iso) (\<lambda>start_date.
     bind_err (dict_get activity ''distance'' (JInt 0)) (\<lambda>distance.
     bind_err (py_truediv distance 1000) (\<lambda>km.
     bind_err (round_2 km) (\<lambda>distance_km.
     bind_err (dict_get activity ''moving_time'' (JInt 0)) (\<lambda>moving_time.
     bind_err (py_truediv moving_time 60) (\<lambda>minutes.
     bind_err (round_2 minutes) (\<lambda>moving_time_min.
     bind_err (dict_get activity ''total_elevation_gain'' (JInt 0)) (\<lambda>gain.
     bind_err (round_2 gain) (\<lambda>total_elevation_gain.
     bind_err (dict_get activity ''average_speed'' (JInt 0)) (\<lambda>average_speed.
     bind_err (py_mul_float average_speed float_3_6) (\<lambda>kmh.
     bind_err (round_2 kmh) (\<lambda>average_speed_kmh.
     bind_err (dict_get activity ''average_heartrate'' JNull) (\<lambda>average_heartrate.
     bind_err (dict_get activity ''max_heartrate'' JNull) (\<lambda>max_heartrate.
       Inr [(''name'', Val name),
            (''type'', Val type),
            (''start_date'', Date start_date),
            (''distance_km'', Val distance_km),
            (''moving_time_min'', Val moving_time_min),
            (''total_elevation_gain'', Val total_elevation_gain),
            (''average_speed_kmh'', Val average_speed_kmh),
            (''average_heartrate'', Val average_heartrate),
            (''max_heartrate'', Val max_heartrate)]))))))))))))))))))"

text \<open>The loop: \<open>processed_data\<close> is the accumulator, a raise leaves the loop.\<close>

fun process_loop :: "'d pylib \<Rightarrow> 'd row list \<Rightarrow> json list \<Rightarrow> error + 'd row list" where
  "process_loop L processed_data [] = Inr processed_data"
| "process_loop L processed_data (activity # rest) =
     (case process_activity L activity of
        Inl e \<Rightarrow> Inl e
      | Inr r \<Rightarrow> process_loop L (processed_data @ [r]) rest)"

record fetcher =
  tokens :: json

text \<open>The data frame is the list of its rows, in order.\<close>

definition process_activities :: "'d pylib \<Rightarrow> fetcher \<Rightarrow> json \<Rightarrow> error + 'd row list" where
  "process_activities L self activities =
     (case py_iter activities of
        Inl e \<Rightarrow> Inl e
      | Inr xs \<Rightarrow> process_loop L [] xs)"

section \<open>Formatting\<close>

text \<open>The decimal text of an integer.\<close>

fun digits :: "nat \<Rightarrow> string" where
  "digits n =
     (if n < 10 then [char_of (48 + n)]
      else digits (n div 10) @ [char_of (48 + n mod 10)])"

declare digits.simps [simp del]

definition str_int :: "int \<Rightarrow> string" where
  "str_int i = (if i < 0 then CHR ''-'' # digits (nat (- i)) else digits (nat i))"

text \<open>The text of a value inside an f-string.\<close>

definition py_str :: "'d pylib \<Rightarrow> json \<Rightarrow> string" where
  "py_str L v =
     (case v of
        JStr s \<Rightarrow> s
      | JNull \<Rightarrow> ''None''
      | JBool b \<Rightarrow> (if b then ''True'' else ''False'')
      | JInt i \<Rightarrow> str_int i
      | _ \<Rightarrow> str_of L v)"



section \<open>The world outside the program\<close>

text \<open>
  The environment variables (as they are after \<^verbatim>\<open>load_dotenv()\<close>), the files with
  their text, the clock, the remote service, the requests sent so far and the lines
  printed. The service answers a request with a response or a network failure, and
  its answer may depend on the requests it has received before. A response carries
  what \<^verbatim>\<open>response.json()\<close> gives: the decoded body or the exception.
\<close>

datatype http_method = GET | POST

record request =
  meth :: http_method
  url :: string
  headers :: "(string \<times> string) list"
  params :: "(string \<times> json) list"
  form :: "(string \<times> json) list"

record response =
  status_code :: int
  body :: string
  json_body :: "error + json"

record world =
  environ :: "string \<Rightarrow> string option"
  files :: "string \<Rightarrow> string option"
  clock :: rat
  server :: "request list \<Rightarrow> request \<Rightarrow> error + response"
  sent :: "request list"
  stdout :: "string list"

definition http_send :: "world \<Rightarrow> request \<Rightarrow> (error + response) \<times> world" where
  "http_send w req = (server w (sent w) req, w\<lparr>sent := sent w @ [req]\<rparr>)"

definition print :: "string \<Rightarrow> world \<Rightarrow> world" where
  "print line w = w\<lparr>stdout := stdout w @ [line]\<rparr>"

section \<open>auth_script.py\<close>

record authenticator =
  client_id :: string
  client_secret :: string
  redirect_uri :: string

text \<open>\<^verbatim>\<open>StravaAuthenticator.__init__\<close>: each of the three variables must be set and not empty.\<close>

definition StravaAuthenticator_init :: "world \<Rightarrow> error + authenticator" where
  "StravaAuthenticator_init w =
     (case (environ w ''STRAVA_CLIENT_ID'', environ w ''STRAVA_CLIENT_SECRET'',
            environ w ''STRAVA_REDIRECT_URI'') of
        (Some cid, Some secret, Some uri) \<Rightarrow>
          if cid \<noteq> [] \<and> secret \<noteq> [] \<and> uri \<noteq> []
          then Inr \<lparr>client_id = cid, client_secret = secret, redirect_uri = uri\<rparr>
          else Inl (Error ValueError
            ''Please set STRAVA_CLIENT_ID, STRAVA_CLIENT_SECRET, and STRAVA_REDIRECT_URI in .env file'')
      | _ \<Rightarrow> Inl (Error ValueError
            ''Please set STRAVA_CLIENT_ID, STRAVA_CLIENT_SECRET, and STRAVA_REDIRECT_URI in .env file''))"

definition token_url :: string where
  "token_url = ''https://www.strava.com/oauth/token''"

definition exchange_request :: "authenticator \<Rightarrow> json \<Rightarrow> request" where
  "exchange_request self code =
     \<lparr>meth = POST, url = token_url, headers = [], params = [],
      form = [(''client_id'', JStr (client_id self)),
              (''client_secret'', JStr (client_secret self)),
              (''code'', code),
              (''grant_type'', JStr ''authorization_code'')]\<rparr>"

definition exchange_token :: "authenticator \<Rightarrow> json \<Rightarrow> world \<Rightarrow> (error + json) \<times> world" where
  "exchange_token self code w =
     (let (r, w') = http_send w (exchange_request self code)
      in case r of
           Inl e \<Rightarrow> (Inl e, w')
         | Inr response \<Rightarrow>
             if status_code response = 200 then (json_body response, w')
             else (Inl (Error Exception (''Token exchange failed: '' @ body response)), w'))"

section \<open>strava_data.py\<close>

text \<open>
  Writing the token file: \<^verbatim>\<open>save_tokens\<close> of \<^verbatim>\<open>auth_script.py\<close>, and the same three
  lines at the end of \<^verbatim>\<open>_refresh_token\<close>. The file name is fixed.
\<close>

definition save_tokens :: "'d pylib \<Rightarrow> json \<Rightarrow> world \<Rightarrow> world" where
  "save_tokens L toks w =
     w\<lparr>files := (files w)(''strava_tokens.json'' \<mapsto> json_dumps L toks)\<rparr>"

text \<open>
  \<^verbatim>\<open>_refresh_token\<close>; \<open>new_token_set\<close> is the dictionary it builds from the response.
  The result is the exception or nothing, with the fetcher and the
  world as they are when the method returns or raises.
\<close>

definition new_token_set :: "json \<Rightarrow> error + json" where
  "new_token_set new_tokens =
     bind_err (getitem new_tokens ''access_token'') (\<lambda>a.
     bind_err (getitem new_tokens ''refresh_token'') (\<lambda>r.
     bind_err (getitem new_tokens ''expires_at'') (\<lambda>x.
       Inr (JObj [(''access_token'', a), (''refresh_token'', r), (''expires_at'', x)]))))"

definition refresh_token ::
  "'d pylib \<Rightarrow> fetcher \<Rightarrow> world \<Rightarrow> (error + unit) \<times> fetcher \<times> world" where
  "refresh_token L self w =
     (case StravaAuthenticator_init w of
        Inl e \<Rightarrow> (Inl e, self, w)
      | Inr authenticator \<Rightarrow>
          (case getitem (tokens self) ''refresh_token'' of
             Inl e \<Rightarrow> (Inl e, self, w)
           | Inr rt \<Rightarrow>
               (let (r, w') = exchange_token authenticator rt w
                in case bind_err r new_token_set of
                     Inl e \<Rightarrow> (Inl e, self, w')
                   | Inr toks \<Rightarrow>
                       (Inr (), self\<lparr>tokens := toks\<rparr>, save_tokens L toks w'))))"

text \<open>\<^verbatim>\<open>now >= expires_at\<close> for the float \<open>now\<close>; a float and an integer compare exactly.\<close>

definition float_ge :: "rat \<Rightarrow> json \<Rightarrow> error + bool" where
  "float_ge now v =
     (case v of
        JInt i \<Rightarrow> Inr (of_int i \<le> now)
      | JBool b \<Rightarrow> Inr ((if b then 1 else 0) \<le> now)
      | JFloat x \<Rightarrow>
          Inr (case x of Finite r \<Rightarrow> r \<le> now | NegInf \<Rightarrow> True | _ \<Rightarrow> False)
      | _ \<Rightarrow> Inl (Error TypeError
                 (quoted ''>='' @ '' not supported between instances of '' @ quoted ''float''
                  @ '' and '' @ quoted (type_name v))))"

text \<open>The instant a JSON number denotes, to say that it lies before or after the clock.\<close>

fun timestamp :: "json \<Rightarrow> rat option" where
  "timestamp (JInt i) = Some (of_int i)"
| "timestamp (JFloat (Finite x)) = Some x"
| "timestamp v = None"

text \<open>\<^verbatim>\<open>StravaDataFetcher.__init__\<close>.\<close>

definition load_tokens :: "'d pylib \<Rightarrow> string \<Rightarrow> world \<Rightarrow> error + json" where
  "load_tokens L tokens_file w =
     (case files w tokens_file of
        None \<Rightarrow> Inl (Error FileNotFoundError
                   (''[Errno 2] No such file or directory: '' @ quoted tokens_file))
      | Some content \<Rightarrow> json_loads L content)"

definition StravaDataFetcher_init ::
  "'d pylib \<Rightarrow> string \<Rightarrow> world \<Rightarrow> (error + fetcher) \<times> world" where
  "StravaDataFetcher_init L tokens_file w =
     (case load_tokens L tokens_file w of
        Inl e \<Rightarrow> (Inl e, w)
      | Inr toks \<Rightarrow>
          (case bind_err (getitem toks ''expires_at'') (float_ge (clock w)) of
             Inl e \<Rightarrow> (Inl e, w)
           | Inr expired \<Rightarrow>
               if expired
               then (case refresh_token L \<lparr>tokens = toks\<rparr> w of
                       (Inl e, self, w') \<Rightarrow> (Inl e, w')
                     | (Inr u, self, w') \<Rightarrow> (Inr self, w'))
               else (Inr \<lparr>tokens = toks\<rparr>, w)))"

text \<open>
  The two handlers of \<^verbatim>\<open>get_activities\<close> and \<^verbatim>\<open>get_athlete_profile\<close>: the exception is
  printed and raised again.
\<close>

definition report :: "string \<Rightarrow> error \<Rightarrow> world \<Rightarrow> world" where
  "report what e w =
     (if error_class e = RequestException then print (''Network Error: '' @ error_str e) w
      else print (''Unexpected error fetching '' @ what @ '': '' @ error_str e) w)"

definition http_error :: "response \<Rightarrow> error" where
  "http_error response =
     Error Exception
       (''HTTP Error: '' @ str_int (status_code response) @ '' - '' @ body response)"

definition activities_request :: "'d pylib \<Rightarrow> json \<Rightarrow> int \<Rightarrow> request" where
  "activities_request L access_token limit =
     \<lparr>meth = GET, url = ''https://www.strava.com/api/v3/athlete/activities'',
      headers = [(''Authorization'', ''Bearer '' @ py_str L access_token)],
      params = [(''per_page'', JInt limit)], form = []\<rparr>"

definition get_activities ::
  "'d pylib \<Rightarrow> fetcher \<Rightarrow> int \<Rightarrow> world \<Rightarrow> (error + json) \<times> world" where
  "get_activities L self limit w =
     (case getitem (tokens self) ''access_token'' of
        Inl e \<Rightarrow> (Inl e, w)
      | Inr access_token \<Rightarrow>
          (let (r, w') = http_send w (activities_request L access_token limit)
           in case bind_err r (\<lambda>response.
                     if status_code response \<noteq> 200 then Inl (http_error response)
                     else json_body response) of
                Inl e \<Rightarrow> (Inl e, report ''activities'' e w')
              | Inr activities \<Rightarrow>
                  (Inr activities,
                   if \<not> truthy activities
                   then print ''Warning: No activities returned from Strava API'' w'
                   else w')))"




section \<open>A library instance and a remote service for concrete runs\<close>

text \<open>
  To run the program on concrete inputs the parameters need values. The instance
  below knows a few JSON documents by their text, parses one timestamp (the datetime
  it returns is the ISO text itself) and is used only at these inputs.
\<close>

definition dq :: "string \<Rightarrow> string" where
  "dq s = [CHR 0x22] @ s @ [CHR 0x22]"

definition token_text :: "string \<Rightarrow> string \<Rightarrow> string \<Rightarrow> string" where
  "token_text a r x =
     ''{'' @ dq ''access_token'' @ '': '' @ dq a @ '', '' @ dq ''refresh_token'' @ '': '' @ dq r
     @ '', '' @ dq ''expires_at'' @ '': '' @ x @ ''}''"

definition token_doc :: "string \<Rightarrow> string \<Rightarrow> int \<Rightarrow> json" where
  "token_doc a r x =
     JObj [(''access_token'', JStr a), (''refresh_token'', JStr r), (''expires_at'', JInt x)]"

definition sample_docs :: "(string \<times> json) list" where
  "sample_docs =
     [(token_text ''old'' ''r0'' ''1000'', token_doc ''old'' ''r0'' 1000),
      (token_text ''new'' ''r1'' ''9000'', token_doc ''new'' ''r1'' 9000),
      (''{'' @ dq ''expires_at'' @ '': 9000}'', JObj [(''expires_at'', JInt 9000)]),
      (''{}'', JObj [])]"

definition sample_lib :: "string pylib" where
  "sample_lib =
     \<lparr>json_loads = (\<lambda>s. case map_of sample_docs s of
                          Some v \<Rightarrow> Inr v
                        | None \<Rightarrow> Inl (Error JSONDecodeError ''Expecting value'')),
      json_dumps = (\<lambda>v. case find (\<lambda>d. snd d = v) sample_docs of
                          Some d \<Rightarrow> fst d
                        | None \<Rightarrow> ''null''),
      fromisoformat = (\<lambda>s. if s = ''2024-01-15T08:30:00+00:00'' then Inr s
                           else Inl (Error ValueError (''Invalid isoformat string: '' @ quoted s))),
      str_of = (\<lambda>v. [])\<rparr>"

text \<open>
  A service that answers the token exchange with a new token set, the profile request
  with a profile of two names and the activity list with \<open>[]\<close>.
\<close>

definition sample_server :: "request list \<Rightarrow> request \<Rightarrow> error + response" where
  "sample_server history req =
     (if url req = token_url
      then Inr \<lparr>status_code = 200, body = token_text ''new'' ''r1'' ''9000'',
                json_body = Inr (token_doc ''new'' ''r1'' 9000)\<rparr>
      else if url req = ''https://www.strava.com/api/v3/athlete''
      then Inr \<lparr>status_code = 200, body = [],
                json_body = Inr (JObj [(''firstname'', JStr ''Jane''), (''lastname'', JStr ''Doe'')])\<rparr>
      else Inr \<lparr>status_code = 200, body = ''[]'', json_body = Inr (JList [])\<rparr>)"


definition sample_environ :: "string \<Rightarrow> string option" where
  "sample_environ =
     [''STRAVA_CLIENT_ID'' \<mapsto> ''12345'', ''STRAVA_CLIENT_SECRET'' \<mapsto> ''secret'',
      ''STRAVA_REDIRECT_URI'' \<mapsto> ''http://localhost'']"

definition sample_world :: "string \<Rightarrow> rat \<Rightarrow> world" where
  "sample_world content now =
     \<lparr>environ = sample_environ, files = [''strava_tokens.json'' \<mapsto> content], clock = now,
      server = sample_server, sent = [], stdout = []\<rparr>"

section \<open>Sequencing and the loop\<close>

lemma bind_err_Inr [simp]: "bind_err (Inr x) f = f x"
  by (simp add: bind_err_def)

lemma bind_err_Inl [simp]: "bind_err (Inl e) f = Inl e"
  by (simp add: bind_err_def)



lemma process_loop_first_failure:
  "\<forall>x \<in> set pre. \<exists>r. process_activity L x = Inr r \<Longrightarrow> process_activity L a = Inl e
     \<Longrightarrow> process_loop L acc (pre @ a # post) = Inl e"
proof (induction pre arbitrary: acc)
  case Nil
  then show ?case by simp
next
  case (Cons x pre)
  then obtain r where "process_activity L x = Inr r" by auto
  with Cons show ?case by simp
qed

lemma process_activities_list:
  "process_activities L self (JList acts) = process_loop L [] acts"
  by (simp add: process_activities_def py_iter_def)

section \<open>Records with defaults\<close>

lemma round_to_double_0: "round_to_double 0 = Finite 0"
  by (simp add: round_to_double_def)

lemma zero_div: "py_truediv (JInt 0) k = Inr (JFloat (Finite 0))"
  by (simp add: py_truediv_def int_true_divide_def round_to_double_0)

lemma zero_mul: "py_mul_float (JInt 0) c = Inr (JFloat (Finite 0))"
  by (simp add: py_mul_float_def int_to_float_def float_times_def round_to_double_0)

lemma zero_round: "round_2 (JFloat (Finite 0)) = Inr (JFloat (Finite 0))"
  by (simp add: round_2_def float_round_2_def round_half_even_div_def round_to_double_0)

lemma int_round: "round_2 (JInt a) = Inr (JInt a)"
  by (simp add: round_2_def)

lemma dict_get_JObj:
  "dict_get (JObj kvs) k d = Inr (case map_of kvs k of None \<Rightarrow> d | Some v \<Rightarrow> v)"
  by (simp add: dict_get_def)

lemma process_activity_defaults:
  assumes "map_of kvs ''start_date'' = Some (JStr sd)"
      and "fromisoformat L (replace_Z sd) = Inr d"
      and "map_of kvs ''name'' = None" and "map_of kvs ''type'' = None"
      and "map_of kvs ''distance'' = None" and "map_of kvs ''moving_time'' = None"
      and "map_of kvs ''total_elevation_gain'' = None"
      and "map_of kvs ''average_speed'' = None"
      and "map_of kvs ''average_heartrate'' = None"
      and "map_of kvs ''max_heartrate'' = None"
  shows "process_activity L (JObj kvs) =
           Inr [(''name'', Val (JStr ''Unnamed Activity'')),
                (''type'', Val (JStr ''Unknown'')),
                (''start_date'', Date d),
                (''distance_km'', Val (JFloat (Finite 0))),
                (''moving_time_min'', Val (JFloat (Finite 0))),
                (''total_elevation_gain'', Val (JInt 0)),
                (''average_speed_kmh'', Val (JFloat (Finite 0))),
                (''average_heartrate'', Val JNull),
                (''max_heartrate'', Val JNull)]"
  using assms
  by (simp add: process_activity_def dict_get_JObj str_replace_Z_def zero_div zero_mul
      zero_round int_round)

lemma process_activity_null_distance:
  assumes "map_of kvs ''start_date'' = Some (JStr sd)"
      and "fromisoformat L (replace_Z sd) = Inr d"
      and "map_of kvs ''distance'' = Some JNull"
  shows "process_activity L (JObj kvs) =
           Inl (Error TypeError (''unsupported operand type(s) for /: ''
                  @ quoted ''NoneType'' @ '' and '' @ quoted ''int''))"
  using assms
  by (simp add: process_activity_def dict_get_JObj str_replace_Z_def py_truediv_def)

lemma replace_Z_sample: "replace_Z ''2024-01-15T08:30:00Z'' = ''2024-01-15T08:30:00+00:00''"
  by (simp add: replace_Z_def)

lemma fromisoformat_sample:
  "fromisoformat sample_lib (replace_Z ''2024-01-15T08:30:00Z'') = Inr ''2024-01-15T08:30:00+00:00''"
  by (simp add: replace_Z_sample sample_lib_def)

lemma sample_activity_row:
  "process_activity sample_lib (JObj [(''start_date'', JStr ''2024-01-15T08:30:00Z'')]) =
     Inr [(''name'', Val (JStr ''Unnamed Activity'')),
          (''type'', Val (JStr ''Unknown'')),
          (''start_date'', Date ''2024-01-15T08:30:00+00:00''),
          (''distance_km'', Val (JFloat (Finite 0))),
          (''moving_time_min'', Val (JFloat (Finite 0))),
          (''total_elevation_gain'', Val (JInt 0)),
          (''average_speed_kmh'', Val (JFloat (Finite 0))),
          (''average_heartrate'', Val JNull),
          (''max_heartrate'', Val JNull)]"
  by (rule process_activity_defaults [OF _ fromisoformat_sample]) simp_all

lemma sample_activity_null_distance:
  "process_activity sample_lib
     (JObj [(''start_date'', JStr ''2024-01-15T08:30:00Z''), (''distance'', JNull)]) =
     Inl (Error TypeError (''unsupported operand type(s) for /: ''
            @ quoted ''NoneType'' @ '' and '' @ quoted ''int''))"
  by (rule process_activity_null_distance [OF _ fromisoformat_sample]) simp_all

text \<open>
  Claim C1, as stated: normalisation is total; a raw activity object missing all its
  optional fields gives the record of defaults, and no missing or malformed field
  aborts the batch. It fails: a batch whose only object has a parseable
  \<open>start_date\<close> and a \<open>distance\<close> of \<open>null\<close> raises \<open>TypeError\<close>.
\<close>

theorem normalize_total_counterexample:
  "process_activities sample_lib \<lparr>tokens = JNull\<rparr>
     (JList [JObj [(''start_date'', JStr ''2024-01-15T08:30:00Z''), (''distance'', JNull)]]) =
     Inl (Error TypeError (''unsupported operand type(s) for /: ''
            @ quoted ''NoneType'' @ '' and '' @ quoted ''int''))"
  by (simp add: process_activities_list sample_activity_null_distance)

text \<open>
  Claim C1, amended: for every raw activity object that has a \<open>start_date\<close> string the
  date parser accepts and none of the other fields, \<open>process_activities\<close> gives the
  record with name "Unnamed Activity", type "Unknown", zeroed numeric fields and absent
  heart rates. A field that is present with a value the arithmetic does not take is
  not replaced by its default (a \<open>distance\<close> of \<open>null\<close> raises \<open>TypeError\<close>), and the
  first record that raises ends the whole batch with its exception.
\<close>

theorem normalize_defaults:
  "(map_of kvs ''start_date'' = Some (JStr sd) \<and> fromisoformat L (replace_Z sd) = Inr d
      \<and> map_of kvs ''name'' = None \<and> map_of kvs ''type'' = None
      \<and> map_of kvs ''distance'' = None \<and> map_of kvs ''moving_time'' = None
      \<and> map_of kvs ''total_elevation_gain'' = None \<and> map_of kvs ''average_speed'' = None
      \<and> map_of kvs ''average_heartrate'' = None \<and> map_of kvs ''max_heartrate'' = None
      \<longrightarrow> process_activities L self (JList [JObj kvs]) =
            Inr [[(''name'', Val (JStr ''Unnamed Activity'')),
                  (''type'', Val (JStr ''Unknown'')),
                  (''start_date'', Date d),
                  (''distance_km'', Val (JFloat (Finite 0))),
                  (''moving_time_min'', Val (JFloat (Finite 0))),
                  (''total_elevation_gain'', Val (JInt 0)),
                  (''average_speed_kmh'', Val (JFloat (Finite 0))),
                  (''average_heartrate'', Val JNull),
                  (''max_heartrate'', Val JNull)]])
   \<and> (map_of kvs' ''start_date'' = Some (JStr sd') \<and> fromisoformat L (replace_Z sd') = Inr d'
      \<and> map_of kvs' ''distance'' = Some JNull
      \<longrightarrow> process_activity L (JObj kvs') =
            Inl (Error TypeError (''unsupported operand type(s) for /: ''
                   @ quoted ''NoneType'' @ '' and '' @ quoted ''int'')))
   \<and> ((\<forall>x \<in> set pre. \<exists>r. process_activity L x = Inr r) \<and> process_activity L a = Inl e
      \<longrightarrow> process_activities L self (JList (pre @ a # post)) = Inl e)"
  by (simp add: process_activities_list process_activity_defaults
      process_activity_null_distance process_loop_first_failure)

theorem normalize_defaults_witness:
  "process_activities sample_lib \<lparr>tokens = JNull\<rparr>
     (JList [JObj [(''start_date'', JStr ''2024-01-15T08:30:00Z'')]]) =
     Inr [[(''name'', Val (JStr ''Unnamed Activity'')),
           (''type'', Val (JStr ''Unknown'')),
           (''start_date'', Date ''2024-01-15T08:30:00+00:00''),
           (''distance_km'', Val (JFloat (Finite 0))),
           (''moving_time_min'', Val (JFloat (Finite 0))),
           (''total_elevation_gain'', Val (JInt 0)),
           (''average_speed_kmh'', Val (JFloat (Finite 0))),
           (''average_heartrate'', Val JNull),
           (''max_heartrate'', Val JNull)]]
   \<and> process_activity sample_lib
       (JObj [(''start_date'', JStr ''2024-01-15T08:30:00Z''), (''distance'', JNull)]) =
       Inl (Error TypeError (''unsupported operand type(s) for /: ''
              @ quoted ''NoneType'' @ '' and '' @ quoted ''int''))
   \<and> process_activities sample_lib \<lparr>tokens = JNull\<rparr>
       (JList ([JObj [(''start_date'', JStr ''2024-01-15T08:30:00Z'')]]
               @ JObj [(''start_date'', JStr ''2024-01-15T08:30:00Z''), (''distance'', JNull)]
               # [JObj [(''start_date'', JStr ''2024-01-15T08:30:00Z'')]])) =
       Inl (Error TypeError (''unsupported operand type(s) for /: ''
              @ quoted ''NoneType'' @ '' and '' @ quoted ''int''))"
  using normalize_defaults [of "[(''start_date'', JStr ''2024-01-15T08:30:00Z'')]"
      "''2024-01-15T08:30:00Z''" sample_lib "''2024-01-15T08:30:00+00:00''"
      "\<lparr>tokens = JNull\<rparr>"
      "[(''start_date'', JStr ''2024-01-15T08:30:00Z''), (''distance'', JNull)]"
      "''2024-01-15T08:30:00Z''" "''2024-01-15T08:30:00+00:00''"
      "[JObj [(''start_date'', JStr ''2024-01-15T08:30:00Z'')]]"
      "JObj [(''start_date'', JStr ''2024-01-15T08:30:00Z''), (''distance'', JNull)]"
      "Error TypeError (''unsupported operand type(s) for /: ''
              @ quoted ''NoneType'' @ '' and '' @ quoted ''int'')"
      "[JObj [(''start_date'', JStr ''2024-01-15T08:30:00Z'')]]"]
    fromisoformat_sample sample_activity_row sample_activity_null_distance
  by simp




section \<open>Unit conversions\<close>
















section \<open>Athlete profile and activity list\<close>









text \<open>
  Claim C6: when the activities endpoint answers with status 200 and the empty list,
  \<open>get_activities\<close> returns the empty list and does not raise; the warning is the
  line it prints, and nothing else happens to the world but the request being sent.
\<close>

theorem empty_activities_warning:
  assumes "getitem (tokens self) ''access_token'' = Inr tok"
      and "server w (sent w) (activities_request L tok limit) = Inr response"
      and "status_code response = 200"
      and "json_body response = Inr (JList [])"
  shows "get_activities L self limit w =
           (Inr (JList []),
            w\<lparr>sent := sent w @ [activities_request L tok limit],
              stdout := stdout w @ [''Warning: No activities returned from Strava API'']\<rparr>)"
  using assms
  by (simp add: get_activities_def http_send_def print_def)

theorem empty_activities_warning_witness:
  "get_activities sample_lib \<lparr>tokens = token_doc ''new'' ''r1'' 9000\<rparr> 30 (sample_world [] 500) =
     (Inr (JList []),
      (sample_world [] 500)
        \<lparr>sent := [activities_request sample_lib (JStr ''new'') 30],
          stdout := [''Warning: No activities returned from Strava API'']\<rparr>)"
proof -
  have t: "getitem (tokens \<lparr>tokens = token_doc ''new'' ''r1'' 9000\<rparr>) ''access_token'' = Inr (JStr ''new'')"
    by (simp add: getitem_def token_doc_def)
  have r: "server (sample_world [] 500) (sent (sample_world [] 500))
             (activities_request sample_lib (JStr ''new'') 30) =
           Inr \<lparr>status_code = 200, body = ''[]'', json_body = Inr (JList [])\<rparr>"
    by (simp add: sample_world_def sample_server_def activities_request_def token_url_def)
  from empty_activities_warning [OF t r]
  show ?thesis
    by (simp add: sample_world_def)
qed

section \<open>Loading, refreshing and saving the tokens\<close>

lemma float_ge_past:
  "timestamp ea = Some t \<Longrightarrow> t \<le> now \<Longrightarrow> float_ge now ea = Inr True"
  by (cases ea rule: timestamp.cases) (simp_all add: float_ge_def)

lemma float_ge_future:
  "timestamp ea = Some t \<Longrightarrow> now < t \<Longrightarrow> float_ge now ea = Inr False"
  by (cases ea rule: timestamp.cases) (simp_all add: float_ge_def)

lemma exchange_token_sent:
  "snd (exchange_token auth rt w) = w\<lparr>sent := sent w @ [exchange_request auth rt]\<rparr>"
  by (simp add: exchange_token_def http_send_def split: sum.splits)


lemma refresh_token_cases:
  assumes "StravaAuthenticator_init w = Inr auth"
      and "getitem (tokens self) ''refresh_token'' = Inr rt"
  shows "refresh_token L self w =
           (case bind_err (fst (exchange_token auth rt w)) new_token_set of
              Inl e \<Rightarrow> (Inl e, self, w\<lparr>sent := sent w @ [exchange_request auth rt]\<rparr>)
            | Inr toks \<Rightarrow>
                (Inr (), self\<lparr>tokens := toks\<rparr>,
                 save_tokens L toks (w\<lparr>sent := sent w @ [exchange_request auth rt]\<rparr>)))"
proof -
  obtain r w' where e: "exchange_token auth rt w = (r, w')" by (cases "exchange_token auth rt w")
  with exchange_token_sent [of auth rt w]
  have "w' = w\<lparr>sent := sent w @ [exchange_request auth rt]\<rparr>" by simp
  with e assms show ?thesis by (simp add: refresh_token_def)
qed



lemma init_expired:
  assumes "load_tokens L tokens_file w = Inr toks"
      and "getitem toks ''expires_at'' = Inr ea"
      and "timestamp ea = Some t" and "t \<le> clock w"
  shows "StravaDataFetcher_init L tokens_file w =
           (case refresh_token L \<lparr>tokens = toks\<rparr> w of
              (Inl e, self, w') \<Rightarrow> (Inl e, w')
            | (Inr u, self, w') \<Rightarrow> (Inr self, w'))"
  using assms by (simp add: StravaDataFetcher_init_def float_ge_past)

lemma init_unexpired:
  assumes "load_tokens L tokens_file w = Inr toks"
      and "getitem toks ''expires_at'' = Inr ea"
      and "timestamp ea = Some t" and "clock w < t"
  shows "StravaDataFetcher_init L tokens_file w = (Inr \<lparr>tokens = toks\<rparr>, w)"
  using assms by (simp add: StravaDataFetcher_init_def float_ge_future)



lemma sample_sent: "sent (sample_world content now) = []"
  by (simp add: sample_world_def)

lemma sample_auth:
  "StravaAuthenticator_init (sample_world content now) =
     Inr \<lparr>client_id = ''12345'', client_secret = ''secret'', redirect_uri = ''http://localhost''\<rparr>"
  by (simp add: StravaAuthenticator_init_def sample_world_def sample_environ_def)

lemma sample_load_old:
  "load_tokens sample_lib ''strava_tokens.json'' (sample_world (token_text ''old'' ''r0'' ''1000'') now) =
     Inr (token_doc ''old'' ''r0'' 1000)"
  by (simp add: load_tokens_def sample_world_def sample_lib_def sample_docs_def token_text_def
      dq_def)

lemma sample_exchange:
  "exchange_token \<lparr>client_id = ''12345'', client_secret = ''secret'', redirect_uri = ''http://localhost''\<rparr>
     (JStr ''r0'') (sample_world content now) =
     (Inr (token_doc ''new'' ''r1'' 9000),
      (sample_world content now)
        \<lparr>sent := [exchange_request
           \<lparr>client_id = ''12345'', client_secret = ''secret'', redirect_uri = ''http://localhost''\<rparr>
           (JStr ''r0'')]\<rparr>)"
  by (simp add: exchange_token_def http_send_def sample_world_def sample_server_def
      exchange_request_def)

lemma sample_new_token_set:
  "new_token_set (token_doc ''new'' ''r1'' 9000) = Inr (token_doc ''new'' ''r1'' 9000)"
  by (simp add: new_token_set_def token_doc_def getitem_def)

lemma sample_refresh:
  "refresh_token sample_lib \<lparr>tokens = token_doc ''old'' ''r0'' 1000\<rparr> (sample_world content now) =
     (Inr (), \<lparr>tokens = token_doc ''new'' ''r1'' 9000\<rparr>,
      save_tokens sample_lib (token_doc ''new'' ''r1'' 9000)
        ((sample_world content now)
          \<lparr>sent := [exchange_request
             \<lparr>client_id = ''12345'', client_secret = ''secret'', redirect_uri = ''http://localhost''\<rparr>
             (JStr ''r0'')]\<rparr>))"
proof -
  have rt: "getitem (tokens \<lparr>tokens = token_doc ''old'' ''r0'' 1000\<rparr>) ''refresh_token'' = Inr (JStr ''r0'')"
    by (simp add: getitem_def token_doc_def)
  show ?thesis
    unfolding refresh_token_cases [OF sample_auth rt]
    by (simp add: sample_exchange sample_new_token_set sample_sent)
qed

lemma sample_init_expired:
  "StravaDataFetcher_init sample_lib ''strava_tokens.json''
     (sample_world (token_text ''old'' ''r0'' ''1000'') 2000) =
     (Inr \<lparr>tokens = token_doc ''new'' ''r1'' 9000\<rparr>,
      save_tokens sample_lib (token_doc ''new'' ''r1'' 9000)
        ((sample_world (token_text ''old'' ''r0'' ''1000'') 2000)
          \<lparr>sent := [exchange_request
             \<lparr>client_id = ''12345'', client_secret = ''secret'', redirect_uri = ''http://localhost''\<rparr>
             (JStr ''r0'')]\<rparr>))"
proof -
  have ea: "getitem (token_doc ''old'' ''r0'' 1000) ''expires_at'' = Inr (JInt 1000)"
    by (simp add: getitem_def token_doc_def)
  have ts: "timestamp (JInt 1000) = Some 1000" by simp
  have cl: "(1000 :: rat) \<le> clock (sample_world (token_text ''old'' ''r0'' ''1000'') 2000)"
    by (simp add: sample_world_def)
  show ?thesis
    unfolding init_expired [OF sample_load_old ea ts cl]
    by (simp add: sample_refresh)
qed

text \<open>
  The requests for data read the access token as it is: \<open>get_activities\<close> does not
  look at the clock, so a token that expires after construction is not refreshed.
\<close>

lemma get_activities_ignores_clock:
  "fst (get_activities L self limit (w\<lparr>clock := c\<rparr>)) = fst (get_activities L self limit w)
   \<and> sent (snd (get_activities L self limit (w\<lparr>clock := c\<rparr>))) =
       sent (snd (get_activities L self limit w))"
  by (simp add: get_activities_def http_send_def report_def print_def
      split: sum.splits prod.splits)






lemma load_other_file_after_save:
  assumes "tokens_file \<noteq> ''strava_tokens.json''"
  shows "load_tokens L tokens_file (save_tokens L t w) = load_tokens L tokens_file w"
  using assms by (simp add: load_tokens_def save_tokens_def)




lemma init_load_error:
  "load_tokens L tokens_file w = Inl e \<Longrightarrow> StravaDataFetcher_init L tokens_file w = (Inl e, w)"
  by (simp add: StravaDataFetcher_init_def)

lemma init_no_expires_at:
  assumes "load_tokens L tokens_file w = Inr (JObj kvs)" and "map_of kvs ''expires_at'' = None"
  shows "StravaDataFetcher_init L tokens_file w = (Inl (Error KeyError (quoted ''expires_at'')), w)"
  using assms by (simp add: StravaDataFetcher_init_def getitem_def)

lemma sample_load_partial:
  "load_tokens sample_lib ''strava_tokens.json''
     (sample_world (''{'' @ dq ''expires_at'' @ '': 9000}'') now) =
     Inr (JObj [(''expires_at'', JInt 9000)])"
  by (simp add: load_tokens_def sample_world_def sample_lib_def sample_docs_def token_text_def
      dq_def)

lemma sample_load_empty_object:
  "load_tokens sample_lib ''strava_tokens.json'' (sample_world ''{}'' now) = Inr (JObj [])"
  by (simp add: load_tokens_def sample_world_def sample_lib_def sample_docs_def token_text_def
      dq_def)

lemma sample_load_malformed:
  "load_tokens sample_lib ''strava_tokens.json'' (sample_world ''not json'' now) =
     Inl (Error JSONDecodeError ''Expecting value'')"
  by (simp add: load_tokens_def sample_world_def sample_lib_def sample_docs_def token_text_def
      dq_def)

text \<open>
  Claim C5, as stated: construction fails whenever the credential source is missing or
  malformed, including when any one of the three fields is absent. It fails to hold: a
  file that has only an \<open>expires_at\<close> that lies after the clock is loaded without an
  error, and the fetcher holds a token set with no access token and no refresh token.
\<close>

theorem load_incomplete_counterexample:
  "StravaDataFetcher_init sample_lib ''strava_tokens.json''
     (sample_world (''{'' @ dq ''expires_at'' @ '': 9000}'') 500) =
     (Inr \<lparr>tokens = JObj [(''expires_at'', JInt 9000)]\<rparr>,
      sample_world (''{'' @ dq ''expires_at'' @ '': 9000}'') 500)"
proof -
  have ea: "getitem (JObj [(''expires_at'', JInt 9000)]) ''expires_at'' = Inr (JInt 9000)"
    by (simp add: getitem_def)
  have ts: "timestamp (JInt 9000) = Some 9000" by simp
  have cl: "clock (sample_world (''{'' @ dq ''expires_at'' @ '': 9000}'') 500) < (9000 :: rat)"
    by (simp add: sample_world_def)
  show ?thesis
    by (rule init_unexpired [OF sample_load_partial ea ts cl])
qed

text \<open>
  Claim C5, amended: construction fails with \<open>FileNotFoundError\<close> when the credential
  file is missing, with the decoder's exception when its text is not JSON, and with
  \<open>KeyError\<close> when it is a JSON object without \<open>expires_at\<close>. The presence of
  \<open>access_token\<close> and \<open>refresh_token\<close> is not checked: whenever the file decodes to a
  value whose \<open>expires_at\<close> is a number that lies after the clock, construction yields
  the persisted value as the token set and touches nothing.
\<close>

theorem load_failures:
  "(files w tokens_file = None \<longrightarrow>
      StravaDataFetcher_init L tokens_file w =
        (Inl (Error FileNotFoundError
                (''[Errno 2] No such file or directory: '' @ quoted tokens_file)), w))
   \<and> (files w tokens_file = Some content \<and> json_loads L content = Inl e \<longrightarrow>
      StravaDataFetcher_init L tokens_file w = (Inl e, w))
   \<and> (files w tokens_file = Some content \<and> json_loads L content = Inr (JObj kvs)
        \<and> map_of kvs ''expires_at'' = None \<longrightarrow>
      StravaDataFetcher_init L tokens_file w = (Inl (Error KeyError (quoted ''expires_at'')), w))
   \<and> (files w tokens_file = Some content \<and> json_loads L content = Inr toks
        \<and> getitem toks ''expires_at'' = Inr ea \<and> timestamp ea = Some t \<and> clock w < t \<longrightarrow>
      StravaDataFetcher_init L tokens_file w = (Inr \<lparr>tokens = toks\<rparr>, w))"
proof (intro conjI impI; (elim conjE)?)
  assume "files w tokens_file = None"
  then show "StravaDataFetcher_init L tokens_file w =
        (Inl (Error FileNotFoundError
                (''[Errno 2] No such file or directory: '' @ quoted tokens_file)), w)"
    by (intro init_load_error) (simp add: load_tokens_def)
next
  assume "files w tokens_file = Some content" "json_loads L content = Inl e"
  then show "StravaDataFetcher_init L tokens_file w = (Inl e, w)"
    by (intro init_load_error) (simp add: load_tokens_def)
next
  assume "files w tokens_file = Some content" "json_loads L content = Inr (JObj kvs)"
    "map_of kvs ''expires_at'' = None"
  then show "StravaDataFetcher_init L tokens_file w =
      (Inl (Error KeyError (quoted ''expires_at'')), w)"
    by (intro init_no_expires_at [of _ _ _ kvs]) (simp_all add: load_tokens_def)
next
  assume "files w tokens_file = Some content" "json_loads L content = Inr toks"
    "getitem toks ''expires_at'' = Inr ea" "timestamp ea = Some t" "clock w < t"
  then show "StravaDataFetcher_init L tokens_file w = (Inr \<lparr>tokens = toks\<rparr>, w)"
    by (intro init_unexpired [of _ _ _ _ ea t]) (simp_all add: load_tokens_def)
qed

theorem load_failures_witness:
  "StravaDataFetcher_init sample_lib ''tokens.json'' (sample_world ''{}'' 500) =
     (Inl (Error FileNotFoundError
             (''[Errno 2] No such file or directory: '' @ quoted ''tokens.json'')),
      sample_world ''{}'' 500)
   \<and> StravaDataFetcher_init sample_lib ''strava_tokens.json'' (sample_world ''not json'' 500) =
     (Inl (Error JSONDecodeError ''Expecting value''), sample_world ''not json'' 500)
   \<and> StravaDataFetcher_init sample_lib ''strava_tokens.json'' (sample_world ''{}'' 500) =
     (Inl (Error KeyError (quoted ''expires_at'')), sample_world ''{}'' 500)
   \<and> StravaDataFetcher_init sample_lib ''strava_tokens.json''
       (sample_world (token_text ''old'' ''r0'' ''1000'') 500) =
     (Inr \<lparr>tokens = token_doc ''old'' ''r0'' 1000\<rparr>,
      sample_world (token_text ''old'' ''r0'' ''1000'') 500)"
proof -
  have a: "StravaDataFetcher_init sample_lib ''tokens.json'' (sample_world ''{}'' 500) =
     (Inl (Error FileNotFoundError
             (''[Errno 2] No such file or directory: '' @ quoted ''tokens.json'')),
      sample_world ''{}'' 500)"
    using load_failures [of "sample_world ''{}'' 500" "''tokens.json''" sample_lib]
    by (simp add: sample_world_def)
  have b: "StravaDataFetcher_init sample_lib ''strava_tokens.json'' (sample_world ''not json'' 500) =
     (Inl (Error JSONDecodeError ''Expecting value''), sample_world ''not json'' 500)"
    using load_failures [of "sample_world ''not json'' 500" "''strava_tokens.json''" sample_lib
        "''not json''" "Error JSONDecodeError ''Expecting value''"]
      sample_load_malformed [of 500]
    by (simp add: sample_world_def load_tokens_def)
  have c: "StravaDataFetcher_init sample_lib ''strava_tokens.json'' (sample_world ''{}'' 500) =
     (Inl (Error KeyError (quoted ''expires_at'')), sample_world ''{}'' 500)"
    using load_failures [of "sample_world ''{}'' 500" "''strava_tokens.json''" sample_lib
        "''{}''" _ "[]"]
      sample_load_empty_object [of 500]
    by (simp add: sample_world_def load_tokens_def)
  have d: "StravaDataFetcher_init sample_lib ''strava_tokens.json''
       (sample_world (token_text ''old'' ''r0'' ''1000'') 500) =
     (Inr \<lparr>tokens = token_doc ''old'' ''r0'' 1000\<rparr>,
      sample_world (token_text ''old'' ''r0'' ''1000'') 500)"
    using load_failures [of "sample_world (token_text ''old'' ''r0'' ''1000'') 500"
        "''strava_tokens.json''" sample_lib "token_text ''old'' ''r0'' ''1000''" _ _
        "token_doc ''old'' ''r0'' 1000" "JInt 1000" 1000]
      sample_load_old [of 500]
    by (simp add: sample_world_def load_tokens_def getitem_def token_doc_def)
  from a b c d show ?thesis by blast
qed

text \<open>
  Claim C4 asks for a refresh grant. What \<open>_refresh_token\<close> sends is the request of
  \<open>exchange_token\<close>: with an expired token set on file, the only request of the
  construction carries the refresh token in the field \<open>code\<close> and the grant type
  \<open>authorization_code\<close>; it has no field \<open>refresh_token\<close>.
\<close>

theorem refresh_sends_authorization_code:
  "sent (snd (StravaDataFetcher_init sample_lib ''strava_tokens.json''
                (sample_world (token_text ''old'' ''r0'' ''1000'') 2000))) =
     [\<lparr>meth = POST, url = ''https://www.strava.com/oauth/token'', headers = [], params = [],
       form = [(''client_id'', JStr ''12345''), (''client_secret'', JStr ''secret''),
               (''code'', JStr ''r0''), (''grant_type'', JStr ''authorization_code'')]\<rparr>]
   \<and> map_of (form (exchange_request auth code)) ''grant_type'' = Some (JStr ''authorization_code'')
   \<and> map_of (form (exchange_request auth code)) ''refresh_token'' = None"
  by (simp add: sample_init_expired save_tokens_def exchange_request_def token_url_def)

end
